theory Spec2Isabelle
  imports Complex_Main "HOL-Library.AList"
begin

section \<open>Numbers\<close>

text \<open>
  Prices, sizes, spreads and percentages are Python floats in
  \<^verbatim>\<open>stocklook/crypto/gdax/feeds/market_maker.py\<close>. They are modelled as real numbers
  with exact arithmetic. Python's \<^verbatim>\<open>round(x, 2)\<close> is rounding to two decimals with ties
  going to the even neighbour.
\<close>

definition round_half_even :: "real \<Rightarrow> int" where
  "round_half_even x =
     (let f = \<lfloor>x\<rfloor>; d = x - of_int f
      in if d < 1 / 2 then f else if 1 / 2 < d then f + 1 else if even f then f else f + 1)"

definition round2 :: "real \<Rightarrow> real" where
  "round2 x = of_int (round_half_even (x * 100)) / 100"

text \<open>Python's \<^verbatim>\<open>sub in s\<close> on strings.\<close>

fun py_in :: "string \<Rightarrow> string \<Rightarrow> bool" where
  "py_in sub [] = (sub = [])"
| "py_in sub (c # cs) = (take (length sub) (c # cs) = sub \<or> py_in sub cs)"

text \<open>Python's \<^verbatim>\<open>min\<close> and \<^verbatim>\<open>max\<close> of a list the caller knows to be non-empty.\<close>

definition py_min :: "real list \<Rightarrow> real" where
  "py_min xs = fold min (tl xs) (hd xs)"

definition py_max :: "real list \<Rightarrow> real" where
  "py_max xs = fold max (tl xs) (hd xs)"

section \<open>Orders, the market maker and its collaborators\<close>

datatype side = Buy | Sell

type_synonym order_id = nat

text \<open>
  \<^verbatim>\<open>GdaxMMOrder\<close>: the exchange order's id (absent until posted), side, price and size,
  and \<^verbatim>\<open>_op_order\<close>. Orders in the registry are never mutated in place by the functions
  modelled here, so the reference to the opposite order is held as a value.
\<close>

datatype mm_order =
  Order (o_id: "order_id option") (o_side: side) (o_price: real) (o_size: real)
        (op_order: "mm_order option")

datatype error =
    GdaxOrderCancellationError
  | GdaxAPIError string
  | AttributeError
  | AssertionError
  | KeyError
  | IndexError
  | ZeroDivisionError
  | PyException

text \<open>An entry of the exchange's open-orders listing.\<close>

datatype order_data =
  OrderData (d_id: order_id) (d_side: side) (d_price: real) (d_size: real)

text \<open>What \<^verbatim>\<open>GdaxOrder.cancel\<close> and \<^verbatim>\<open>GdaxOrder.post\<close> do (the exchange client, taken
  as given): \<^verbatim>\<open>cancel\<close> returns a list of ids or raises, \<^verbatim>\<open>post\<close> fills in the id (or
  leaves it unset) or raises.\<close>

datatype cancel_reply = CancelReturn "order_id option list" | CancelRaise error

datatype post_reply = PostReturn "order_id option" | PostRaise error

text \<open>
  The collaborators read during one call: the book feed's ticker (absent, or a price),
  the book snapshot's best bid and ask, the quote account's balance and the exchange's
  replies. \<^verbatim>\<open>post\<close> is indexed by the number of orders posted so far.
\<close>

record world =
  get_current_ticker :: "real option"
  highest_bid :: real
  lowest_ask :: real
  balance :: real
  get_orders :: "order_data list"
  is_filled :: "mm_order \<Rightarrow> bool"
  cancel :: "mm_order \<Rightarrow> cancel_reply"
  post :: "nat \<Rightarrow> mm_order \<Rightarrow> post_reply"

text \<open>
  \<^verbatim>\<open>GdaxMarketMaker\<close>: its configuration, \<^verbatim>\<open>_last_ticker\<close> (an empty dict until the
  first positive ticker is seen), the registry \<^verbatim>\<open>_orders\<close> and the table \<^verbatim>\<open>_fills\<close>
  (Python dicts, in insertion order), and the count of orders posted.
\<close>

record market_maker =
  max_spread :: real
  min_spread :: real
  stop_pct :: real
  spend_pct :: real
  max_open_buys :: int
  max_open_sells :: int
  manage_existing_orders :: bool
  aggressive :: bool
  last_ticker :: "real option"
  orders_dict :: "(order_id \<times> mm_order) list"
  fills_dict :: "(order_id \<times> mm_order) list"
  posted :: nat

definition buy_orders :: "market_maker \<Rightarrow> (order_id \<times> mm_order) list" where
  "buy_orders m = filter (\<lambda>(k, ord). o_side ord = Buy) (orders_dict m)"

definition sell_orders :: "market_maker \<Rightarrow> (order_id \<times> mm_order) list" where
  "sell_orders m = filter (\<lambda>(k, ord). o_side ord = Sell) (orders_dict m)"

section \<open>Order: derived values and price adjustments\<close>

definition stop_amount :: "market_maker \<Rightarrow> mm_order \<Rightarrow> real option" where
  "stop_amount m ord =
     (if stop_pct m = 0 then None
      else case op_order ord of
        None \<Rightarrow> None
      | Some opp \<Rightarrow>
          if o_side ord = Buy then None
          else Some (o_price opp - o_price opp * stop_pct m))"

definition get_amount_above_spread ::
  "world \<Rightarrow> market_maker \<Rightarrow> mm_order \<Rightarrow> real option \<Rightarrow> real option \<Rightarrow> real option \<Rightarrow> real" where
  "get_amount_above_spread w m ord spread bid ask =
     (let spread = (case spread of None \<Rightarrow> max_spread m | Some s \<Rightarrow> s)
      in if o_side ord = Sell then
           (let bid = (case bid of None \<Rightarrow> highest_bid w | Some b \<Rightarrow> b);
                max_price = bid + spread
            in round2 (o_price ord - max_price))
         else
           (let ask = (case ask of None \<Rightarrow> lowest_ask w | Some a \<Rightarrow> a);
                min_price = ask - spread
            in round2 (o_price ord - min_price)))"

definition get_pnl :: "mm_order \<Rightarrow> real option \<Rightarrow> real option" where
  "get_pnl ord price =
     (case op_order ord of
        Some opp \<Rightarrow>
          (let price = (case price of None \<Rightarrow> o_price ord | Some p \<Rightarrow> p);
               buy_spend = (if o_side ord = Buy then o_size ord * price
                            else o_size opp * o_price opp);
               sell_spend = (if o_side ord = Buy then o_size opp * o_price opp
                             else o_size ord * price)
           in Some (round2 (sell_spend - buy_spend)))
      | None \<Rightarrow> None)"

text \<open>\<^verbatim>\<open>register_op_order\<close>: the new opposite, or the \<^verbatim>\<open>AttributeError\<close> it raises.\<close>

definition register_op_order :: "mm_order \<Rightarrow> mm_order \<Rightarrow> error + mm_order" where
  "register_op_order self ord =
     (if o_side ord = o_side self \<and> op_order ord \<noteq> None then
        Inr (Order (o_id self) (o_side self) (o_price self) (o_size self) (op_order ord))
      else if o_side ord \<noteq> o_side self then
        Inr (Order (o_id self) (o_side self) (o_price self) (o_size self) (Some ord))
      else Inl AttributeError)"

text \<open>
  \<^verbatim>\<open>get_price_adjusted_to_spread(spread, aggressive, amount_above, factor, min_profit)\<close>.
  \<^verbatim>\<open>not amount_above\<close> and \<^verbatim>\<open>not spread\<close> hold for \<^verbatim>\<open>None\<close> and for zero.
\<close>

definition get_price_adjusted_to_spread ::
  "world \<Rightarrow> market_maker \<Rightarrow> mm_order \<Rightarrow> real option \<Rightarrow> bool \<Rightarrow> real option \<Rightarrow> real
     \<Rightarrow> real option \<Rightarrow> real" where
  "get_price_adjusted_to_spread w m ord spread aggr amount_above factor min_profit =
     (let amount_above =
            (if amount_above = None \<or> amount_above = Some 0 then
               (let spread =
                      (if spread = None \<or> spread = Some 0 then
                         (if aggr then min_spread m else max_spread m)
                       else the spread)
                in get_amount_above_spread w m ord (Some spread) None None)
             else the amount_above);
          price = (if amount_above \<noteq> 0 then round2 (o_price ord - amount_above * factor)
                   else round2 (o_price ord))
      in case (op_order ord, min_profit) of
           (Some opp, Some mp) \<Rightarrow>
             (let min_price = o_price opp + mp
              in if price < min_price then min_price else price)
         | _ \<Rightarrow> price)"

text \<open>The loop of the inner function \<^verbatim>\<open>adj_price\<close>; \<^verbatim>\<open>None\<close> when it never ends.\<close>

partial_function (option) adj_price_loop ::
  "real list \<Rightarrow> real \<Rightarrow> bool \<Rightarrow> real \<Rightarrow> real list \<Rightarrow> real option" where
  "adj_price_loop other_prices step increment p check_p =
     (if check_p \<noteq> [] then
        (let p1 = (if increment then p + step else p + step);
             p2 = round2 p1;
             max_p = p2 + step * 2;
             min_p = p2 - step * 2
         in adj_price_loop other_prices step increment p2
              (filter (\<lambda>x. min_p \<le> x \<and> x \<le> max_p) other_prices))
      else Some p)"

declare adj_price_loop.simps [code]

definition adj_price :: "real list \<Rightarrow> real \<Rightarrow> real \<Rightarrow> bool \<Rightarrow> real option" where
  "adj_price other_prices step p increment =
     (let max_p = p + step * 2;
          min_p = p - step * 2;
          check_p = filter (\<lambda>x. min_p < x \<and> x < max_p) other_prices
      in adj_price_loop other_prices step increment (round2 p) check_p)"

definition get_price_adjusted_to_other_prices ::
  "world \<Rightarrow> market_maker \<Rightarrow> mm_order \<Rightarrow> real list option \<Rightarrow> bool \<Rightarrow> real \<Rightarrow> real option
     \<Rightarrow> real option" where
  "get_price_adjusted_to_other_prices w m ord other_prices aggr step min_profit =
     (let other_prices =
            (case other_prices of
               None \<Rightarrow>
                 (if o_side ord = Buy then sort (map (\<lambda>(k, x). o_price x) (buy_orders m))
                  else sort (map (\<lambda>(k, x). o_price x) (buy_orders m)))
             | Some ps \<Rightarrow> ps);
          other_prices = filter (\<lambda>p. p \<noteq> o_price ord) other_prices;
          my_min = get_price_adjusted_to_spread w m ord None aggr None (8 / 10) min_profit
      in if other_prices = [] then Some my_min
         else
           (let min_price = py_min other_prices;
                max_price = py_max other_prices;
                max_and_step = max_price + step;
                min_and_step = min_price - step
            in if o_side ord = Buy then
                 (if aggr then
                    (if max_and_step \<le> my_min then adj_price other_prices step my_min True
                     else adj_price other_prices step my_min True)
                  else adj_price other_prices step my_min False)
               else
                 (if aggr then
                    (if min_and_step \<le> my_min then adj_price other_prices step my_min False
                     else adj_price other_prices step my_min True)
                  else adj_price other_prices step my_min True)))"

text \<open>The loop of \<^verbatim>\<open>get_price_adjusted_to_profit_target\<close>: \<^verbatim>\<open>pnl\<close> is not recomputed.\<close>

partial_function (option) profit_target_loop :: "real \<Rightarrow> real \<Rightarrow> real \<Rightarrow> real option" where
  "profit_target_loop pnl min_profit price =
     (if pnl < min_profit then profit_target_loop pnl min_profit (price + 1 / 100)
      else Some price)"

declare profit_target_loop.simps [code]

definition get_price_adjusted_to_profit_target :: "mm_order \<Rightarrow> real \<Rightarrow> real option" where
  "get_price_adjusted_to_profit_target ord min_profit =
     (let price = o_price ord
      in case get_pnl ord (Some price) of
           None \<Rightarrow> Some (o_price ord)
         | Some pnl \<Rightarrow> profit_target_loop pnl min_profit price)"

definition get_other_order_prices :: "market_maker \<Rightarrow> side \<Rightarrow> real list" where
  "get_other_order_prices m sd =
     map (\<lambda>(k, x). round2 (o_price x)) (filter (\<lambda>(k, x). o_side x = sd) (orders_dict m))"

text \<open>The loop of \<^verbatim>\<open>get_price_adjusted_to_ticker\<close>; \<^verbatim>\<open>None\<close> when it never ends.\<close>

partial_function (option) ticker_loop ::
  "side \<Rightarrow> real list \<Rightarrow> real \<Rightarrow> real \<Rightarrow> real option" where
  "ticker_loop sd o_prices spread_add price =
     (if price \<in> set o_prices then
        (if sd = Buy then ticker_loop sd o_prices spread_add (price - spread_add)
         else ticker_loop sd o_prices spread_add (price + spread_add))
      else Some price)"

declare ticker_loop.simps [code]

definition get_price_adjusted_to_ticker ::
  "world \<Rightarrow> market_maker \<Rightarrow> mm_order \<Rightarrow> real option \<Rightarrow> real option option \<Rightarrow> bool \<Rightarrow> bool
     \<Rightarrow> real option" where
  "get_price_adjusted_to_ticker w m ord price ticker aggr adjust_vs_open =
     (let ticker = (case ticker of None \<Rightarrow> get_current_ticker w | Some t \<Rightarrow> t);
          price = (case price of None \<Rightarrow> o_price ord | Some p \<Rightarrow> p);
          spread = (if aggr then min_spread m else max_spread m);
          price =
            (case ticker of
               Some ticker_price \<Rightarrow>
                 (if o_side ord = Buy then
                    (if ticker_price - spread \<le> price then ticker_price - spread else price)
                  else if price \<le> ticker_price + spread then ticker_price + spread
                  else price)
             | None \<Rightarrow> price);
          o_prices = get_other_order_prices m (o_side ord);
          spread_add = round2 (spread / 2)
      in ticker_loop (o_side ord) o_prices spread_add price)"

section \<open>The market maker's operations\<close>

text \<open>
  An operation returns its value (\<open>Inr\<close>) or the exception it raises (\<open>Inl\<close>), together
  with the market maker as the operation left it; \<open>None\<close> when a price loop never ends.
\<close>

type_synonym 'a run = "((error + 'a) \<times> market_maker) option"

definition lowest_open_order :: "market_maker \<Rightarrow> mm_order option" where
  "lowest_open_order m =
     (case map snd (orders_dict m) of
        [] \<Rightarrow> None
      | x # xs \<Rightarrow> Some (fold (\<lambda>a b. if o_price a < o_price b then a else b) xs x))"

definition position_size :: "world \<Rightarrow> market_maker \<Rightarrow> error + real" where
  "position_size w m =
     (let bid = lowest_ask w;
          spend_avail = balance w * spend_pct m
      in if bid = 0 then Inl ZeroDivisionError
         else
           (let size_avail = spend_avail / bid;
                buy_orders_n = int (length (buy_orders m));
                sells_open = int (length (sell_orders m))
            in if 1 / 100 < size_avail \<and> buy_orders_n < max_open_buys m
                  \<and> sells_open < max_open_sells m
               then Inr size_avail else Inr 0))"

text \<open>
  \<^verbatim>\<open>place_order\<close>. The \<^verbatim>\<open>adjust_vs_wall\<close> branch reads \<^verbatim>\<open>lowest_open_order\<close> and does
  nothing with it. \<^verbatim>\<open>if open_price:\<close> and \<^verbatim>\<open>if tick_price:\<close> skip a price of zero.
\<close>

definition place_order ::
  "world \<Rightarrow> real \<Rightarrow> real \<Rightarrow> side \<Rightarrow> mm_order option \<Rightarrow> bool \<Rightarrow> bool \<Rightarrow> bool \<Rightarrow> bool \<Rightarrow> bool
     \<Rightarrow> market_maker \<Rightarrow> mm_order option run" where
  "place_order w price sz sd op_ord adjust_vs_open adjust_vs_wall check_size check_ticker
       aggr m =
     (case (if check_size \<and> sd = Buy then
              (case position_size w m of
                 Inl e \<Rightarrow> Inl e
               | Inr pos_size \<Rightarrow>
                   if pos_size < 1 / 100 then Inr None
                   else Inr (Some (if pos_size < sz then pos_size else sz)))
            else Inr (Some sz)) of
        Inl e \<Rightarrow> Some (Inl e, m)
      | Inr None \<Rightarrow> Some (Inr None, m)
      | Inr (Some sz) \<Rightarrow>
          (case (if adjust_vs_open then
                   map_option (\<lambda>open_price. if open_price \<noteq> 0 then open_price else price)
                     (get_price_adjusted_to_other_prices w m (Order None sd price sz op_ord)
                        None aggr (round2 (max_spread m / 2)) (Some (min_spread m)))
                 else Some price) of
             None \<Rightarrow> None
           | Some price1 \<Rightarrow>
               (case (if check_ticker then
                        map_option (\<lambda>tick_price. if tick_price \<noteq> 0 then tick_price else price1)
                          (get_price_adjusted_to_ticker w m (Order None sd price1 sz op_ord)
                             None None aggr True)
                      else Some price1) of
                  None \<Rightarrow> None
                | Some price2 \<Rightarrow>
                    (let m1 = m\<lparr>posted := Suc (posted m)\<rparr>
                     in case post w (posted m) (Order None sd price2 sz op_ord) of
                          PostRaise e \<Rightarrow> Some (Inl e, m1)
                        | PostReturn None \<Rightarrow> Some (Inl AssertionError, m1)
                        | PostReturn (Some i) \<Rightarrow>
                            (let ord = Order (Some i) sd price2 sz op_ord
                             in Some (Inr (Some ord),
                                      m1\<lparr>orders_dict := AList.update i ord (orders_dict m1)\<rparr>))))))"

definition handle_fill :: "world \<Rightarrow> order_id \<Rightarrow> bool \<Rightarrow> market_maker \<Rightarrow> mm_order option run" where
  "handle_fill w order_id replace m =
     (case map_of (orders_dict m) order_id of
        None \<Rightarrow> Some (Inl KeyError, m)
      | Some ord \<Rightarrow>
          (let m1 = m\<lparr>orders_dict := AList.delete order_id (orders_dict m)\<rparr>
           in if \<not> is_filled w ord then Some (Inl PyException, m1)
              else
                (let m2 = m1\<lparr>fills_dict := AList.update order_id ord (fills_dict m1)\<rparr>
                 in if replace then
                      (let spread = (if aggressive m2 then min_spread m2 else max_spread m2);
                           maxed = (if o_side ord = Buy then False
                                    else max_open_buys m2 < int (length (buy_orders m2))
                                         \<or> max_open_sells m2 < int (length (sell_orders m2)));
                           new_side = (if o_side ord = Buy then Sell else Buy);
                           new_price = (if o_side ord = Buy then o_price ord + spread
                                        else o_price ord - spread)
                       in if \<not> maxed then
                            place_order w new_price (o_size ord) new_side (Some ord)
                              True True True True (aggressive m2) m2
                          else Some (Inr None, m2))
                    else Some (Inr None, m2))))"

text \<open>
  \<^verbatim>\<open>cancel_order\<close>. For an id that is not tracked, \<^verbatim>\<open>pop\<close> gives \<^verbatim>\<open>None\<close> and
  \<^verbatim>\<open>order.cancel()\<close> raises \<^verbatim>\<open>AttributeError\<close>, which the first handler logs and raises
  again. An empty reply makes \<^verbatim>\<open>check[0]\<close> raise \<^verbatim>\<open>IndexError\<close>.
\<close>

definition cancel_order :: "world \<Rightarrow> order_id \<Rightarrow> market_maker \<Rightarrow> mm_order run" where
  "cancel_order w order_id m =
     (case map_of (orders_dict m) order_id of
        None \<Rightarrow> Some (Inl AttributeError, m)
      | Some ord \<Rightarrow>
          (let m1 = m\<lparr>orders_dict := AList.delete order_id (orders_dict m)\<rparr>
           in case cancel w ord of
                CancelReturn check \<Rightarrow>
                  (case check of
                     [] \<Rightarrow> Some (Inl IndexError, m1)
                   | c # cs \<Rightarrow>
                       if c = Some order_id \<or> c = None then Some (Inr ord, m1)
                       else Some (Inl AssertionError, m1))
              | CancelRaise (GdaxAPIError msg) \<Rightarrow>
                  if py_in ''done'' msg then
                    (case handle_fill w order_id True
                            (m1\<lparr>orders_dict := AList.update order_id ord (orders_dict m1)\<rparr>) of
                       None \<Rightarrow> None
                     | Some (Inl e, m2) \<Rightarrow> Some (Inl e, m2)
                     | Some (Inr new_order, m2) \<Rightarrow> Some (Inr ord, m2))
                  else if py_in ''not found'' msg then Some (Inr ord, m1)
                  else Some (Inl (GdaxAPIError msg), m1)
              | CancelRaise e \<Rightarrow> Some (Inl e, m1)))"

text \<open>The property \<^verbatim>\<open>orders\<close>: the registry reconciled with the exchange's listing.\<close>

fun handle_fills :: "world \<Rightarrow> order_id list \<Rightarrow> market_maker \<Rightarrow> unit run" where
  "handle_fills w [] m = Some (Inr (), m)"
| "handle_fills w (i # ids) m =
     (case handle_fill w i True m of
        None \<Rightarrow> None
      | Some (Inl e, m1) \<Rightarrow> Some (Inl e, m1)
      | Some (Inr new_order, m1) \<Rightarrow> handle_fills w ids m1)"

definition adopt :: "order_id list \<Rightarrow> order_data \<Rightarrow> (order_id \<times> mm_order) list
     \<Rightarrow> (order_id \<times> mm_order) list" where
  "adopt new_keys d al =
     (if d_id d \<in> set new_keys then
        AList.update (d_id d) (Order (Some (d_id d)) (d_side d) (d_price d) (d_size d) None) al
      else al)"

definition orders :: "world \<Rightarrow> market_maker \<Rightarrow> (order_id \<times> mm_order) list run" where
  "orders w m =
     (let open_orders = get_orders w;
          open_ids = map d_id open_orders;
          filled = filter (\<lambda>i. i \<notin> set open_ids) (map fst (orders_dict m))
      in case handle_fills w filled m of
           None \<Rightarrow> None
         | Some (Inl e, m1) \<Rightarrow> Some (Inl e, m1)
         | Some (Inr u, m1) \<Rightarrow>
             (let m2 =
                    (if manage_existing_orders m1 then
                       (let new_keys = filter (\<lambda>i. i \<notin> set (map fst (orders_dict m1)))
                                         (map d_id open_orders)
                        in m1\<lparr>orders_dict := fold (adopt new_keys) open_orders (orders_dict m1)\<rparr>)
                     else m1)
              in Some (Inr (orders_dict m2), m2)))"

text \<open>
  \<^verbatim>\<open>shift_orders\<close>. The three cancel-and-replace blocks of its loop differ in the price
  and in \<^verbatim>\<open>check_size\<close> only: \<^verbatim>\<open>cancel_order(order.id)\<close>, then \<^verbatim>\<open>place_order\<close> with the
  order's size and side, \<^verbatim>\<open>op_order=order\<close>, \<^verbatim>\<open>adjust_vs_open=False\<close> and the defaults
  for the rest, then \<^verbatim>\<open>new_orders.append\<close>. The loop carries the lists \<^verbatim>\<open>cancels\<close> and
  \<^verbatim>\<open>new_orders\<close>.
\<close>

type_synonym shift_acc = "(order_id \<times> real) list \<times> mm_order option list"

definition replace_order ::
  "world \<Rightarrow> mm_order \<Rightarrow> real \<Rightarrow> bool \<Rightarrow> shift_acc \<Rightarrow> market_maker \<Rightarrow> shift_acc run" where
  "replace_order w ord price check_size acc m =
     (case (case o_id ord of
              None \<Rightarrow> Some (Inl AttributeError, m)
            | Some i \<Rightarrow> cancel_order w i m) of
        None \<Rightarrow> None
      | Some (Inl e, m1) \<Rightarrow> Some (Inl e, m1)
      | Some (Inr cancelled, m1) \<Rightarrow>
          (case place_order w price (o_size ord) (o_side ord) (Some ord)
                  False True check_size True True m1 of
             None \<Rightarrow> None
           | Some (Inl e, m2) \<Rightarrow> Some (Inl e, m2)
           | Some (Inr new_order, m2) \<Rightarrow> Some (Inr (fst acc, snd acc @ [new_order]), m2)))"

definition stopped :: "market_maker \<Rightarrow> mm_order \<Rightarrow> real \<Rightarrow> bool" where
  "stopped m ord p =
     (case stop_amount m ord of None \<Rightarrow> False | Some stop \<Rightarrow> stop \<noteq> 0 \<and> p \<le> stop)"

definition shift_order ::
  "world \<Rightarrow> order_id list \<Rightarrow> real \<Rightarrow> real \<Rightarrow> order_id \<times> mm_order \<Rightarrow> shift_acc \<Rightarrow> market_maker
     \<Rightarrow> shift_acc run" where
  "shift_order w exclude p spread entry acc m =
     (let order_id = fst entry; ord = snd entry
      in if order_id \<in> set exclude then Some (Inr acc, m)
         else if o_side ord = Sell \<and> stopped m ord p then
           Some (Inr (fst acc @ [(order_id, p + 1 / 100)], snd acc), m)
         else
           (let min_price = get_price_adjusted_to_spread w m ord None True None (8 / 10)
                              (Some spread);
                max_price = get_price_adjusted_to_spread w m ord None False None (8 / 10)
                              (Some spread);
                min_diff = round2 (o_price ord - min_price);
                max_diff = round2 (max_price - o_price ord)
            in case get_price_adjusted_to_other_prices w m ord None (aggressive m)
                      (round2 (spread / 2)) (Some (1 / 100)) of
                 None \<Rightarrow> None
               | Some check_price \<Rightarrow>
                   if o_side ord = Buy then
                     (if spread < max_diff then
                        (if o_price ord < check_price then
                           replace_order w ord check_price True acc m
                         else Some (Inr acc, m))
                      else Some (Inr acc, m))
                   else
                     (let stop_sell = round2 (p + spread / 2)
                      in if stopped m ord p \<and> stop_sell < o_price ord then
                           replace_order w ord stop_sell False acc m
                         else if min_price < o_price ord then
                           (if check_price < o_price ord then
                              replace_order w ord check_price True acc m
                            else Some (Inr acc, m))
                         else Some (Inr acc, m))))"

fun shift_loop ::
  "world \<Rightarrow> order_id list \<Rightarrow> real \<Rightarrow> real \<Rightarrow> (order_id \<times> mm_order) list \<Rightarrow> shift_acc
     \<Rightarrow> market_maker \<Rightarrow> shift_acc run" where
  "shift_loop w exclude p spread [] acc m = Some (Inr acc, m)"
| "shift_loop w exclude p spread (entry # entries) acc m =
     (case shift_order w exclude p spread entry acc m of
        None \<Rightarrow> None
      | Some (Inl e, m1) \<Rightarrow> Some (Inl e, m1)
      | Some (Inr acc1, m1) \<Rightarrow> shift_loop w exclude p spread entries acc1 m1)"

text \<open>\<^verbatim>\<open>shift_orders(snap, exclude)\<close>; \<^verbatim>\<open>snap\<close> is not read. It returns \<^verbatim>\<open>None\<close> for an
  empty registry and the list \<^verbatim>\<open>new_orders\<close> otherwise.\<close>

definition shift_orders ::
  "world \<Rightarrow> order_id list option \<Rightarrow> market_maker \<Rightarrow> mm_order option list option run" where
  "shift_orders w exclude m =
     (case orders w m of
        None \<Rightarrow> None
      | Some (Inl e, m1) \<Rightarrow> Some (Inl e, m1)
      | Some (Inr ords, m1) \<Rightarrow>
          if ords = [] then Some (Inr None, m1)
          else
            (let exclude = (case exclude of None \<Rightarrow> [] | Some ex \<Rightarrow> ex);
                 p = (case get_current_ticker w of Some t \<Rightarrow> t | None \<Rightarrow> 0)
             in if (last_ticker m1 = None \<or> last_ticker m1 = Some 0) \<and> 0 < p then
                  Some (Inr (Some []), m1\<lparr>last_ticker := Some p\<rparr>)
                else if last_ticker m1 \<noteq> Some p \<and> 0 < p then
                  (let m2 = m1\<lparr>last_ticker := Some p\<rparr>;
                       spread = (if aggressive m2 then min_spread m2 else max_spread m2)
                   in case shift_loop w exclude p spread (orders_dict m2) ([], []) m2 of
                        None \<Rightarrow> None
                      | Some (Inl e, m3) \<Rightarrow> Some (Inl e, m3)
                      | Some (Inr acc, m3) \<Rightarrow> Some (Inr (Some (snd acc)), m3))
                else Some (Inr (Some []), m1)))"

section \<open>The pairing invariant\<close>

text \<open>Every tracked order either has no opposite or an opposite of the other side.\<close>

definition opposite_sides_differ :: "market_maker \<Rightarrow> bool" where
  "opposite_sides_differ m =
     list_all (\<lambda>(k, x). case op_order x of None \<Rightarrow> True | Some opp \<Rightarrow> o_side opp \<noteq> o_side x)
       (orders_dict m)"

section \<open>Scenarios\<close>

text \<open>
  Concrete markets for the examples below. The prices, spreads and percentages put in
  are multiples of a power of two (0.5, 0.25, 0.125), which floats hold exactly.
\<close>

definition maker0 :: market_maker where
  "maker0 = \<lparr>max_spread = 1, min_spread = 1 / 2, stop_pct = 1 / 4, spend_pct = 1 / 2,
     max_open_buys = 3, max_open_sells = 12, manage_existing_orders = True, aggressive = True,
     last_ticker = Some 300, orders_dict = [], fills_dict = [], posted = 0\<rparr>"

definition world0 :: world where
  "world0 = \<lparr>get_current_ticker = Some (601 / 2), highest_bid = 299, lowest_ask = 300,
     balance = 10000, get_orders = [], is_filled = (\<lambda>x. False),
     cancel = (\<lambda>x. CancelReturn [o_id x]), post = (\<lambda>n x. PostReturn (Some (10 + n)))\<rparr>"

definition buy0 :: mm_order where
  "buy0 = Order (Some 0) Buy 300 1 None"

definition buy1 :: mm_order where
  "buy1 = Order (Some 1) Buy 298 1 None"

definition buy2 :: mm_order where
  "buy2 = Order (Some 2) Buy 297 1 None"

definition buy3 :: mm_order where
  "buy3 = Order (Some 3) Buy 296 1 None"

definition sell1 :: mm_order where
  "sell1 = Order (Some 1) Sell 305 1 (Some buy0)"

definition sell4 :: mm_order where
  "sell4 = Order (Some 4) Sell 305 1 (Some buy0)"

definition sell_flat :: mm_order where
  "sell_flat = Order (Some 1) Sell 300 1 (Some buy0)"


text \<open>The ticker has dropped to 224.50, below the stop of \<open>sell1\<close> at 225.\<close>

definition stop_world :: world where
  "stop_world = world0\<lparr>get_current_ticker := Some (449 / 2), highest_bid := 224,
     lowest_ask := 225, get_orders := [OrderData 1 Sell 305 1]\<rparr>"

text \<open>The exchange lists one buy at 298; the ticker is 300, then 300.50.\<close>

definition adopt_world :: world where
  "adopt_world = world0\<lparr>get_current_ticker := Some 300,
     get_orders := [OrderData 1 Buy 298 1]\<rparr>"

definition replace_world :: world where
  "replace_world = world0\<lparr>get_orders := [OrderData 1 Buy 298 1]\<rparr>"

text \<open>The exchange answers every cancel with ``not found''.\<close>

definition gone_world :: world where
  "gone_world = world0\<lparr>cancel := (\<lambda>x. CancelRaise (GdaxAPIError ''order not found''))\<rparr>"

text \<open>The exchange reports every order as filled.\<close>

definition fill_world :: world where
  "fill_world = world0\<lparr>is_filled := (\<lambda>x. True)\<rparr>"

section \<open>Properties\<close>

subsection \<open>Rounding\<close>




lemma round_half_even_nonneg: "0 \<le> x \<Longrightarrow> 0 \<le> round_half_even x"
  by (simp add: round_half_even_def Let_def)

lemma round2_nonneg: "0 \<le> x \<Longrightarrow> 0 \<le> round2 x"
  by (simp add: round2_def round_half_even_nonneg)




subsection \<open>The stop amount\<close>



subsection \<open>The profit target\<close>

lemma profit_target_loop_exit:
  assumes "profit_target_loop pnl min_profit price = Some r"
  shows "\<not> pnl < min_profit"
  using assms
proof (induction rule: profit_target_loop.raw_induct [rotated 1, consumes 1])
  case (1 loop pnl min_profit price r)
  then show ?case by (auto split: if_splits)
qed

lemma profit_target_loop_diverges:
  "pnl < min_profit \<Longrightarrow> profit_target_loop pnl min_profit price = None"
  using profit_target_loop_exit [of pnl min_profit price]
  by (cases "profit_target_loop pnl min_profit price") auto

lemma profit_target_no_opposite:
  "op_order ord = None \<Longrightarrow> get_price_adjusted_to_profit_target ord min_profit = Some (o_price ord)"
  by (simp add: get_price_adjusted_to_profit_target_def get_pnl_def)

lemma profit_target_reached:
  "get_pnl ord (Some (o_price ord)) = Some pnl \<Longrightarrow> min_profit \<le> pnl
     \<Longrightarrow> get_price_adjusted_to_profit_target ord min_profit = Some (o_price ord)"
  by (simp add: get_price_adjusted_to_profit_target_def profit_target_loop.simps)

text \<open>
  Claim C4. For an order whose PnL at its own price is below \<open>min_profit\<close>,
  \<open>get_price_adjusted_to_profit_target\<close> is claimed to end with a price that reaches
  \<open>min_profit\<close>. The loop never recomputes \<open>pnl\<close>: for a sell at 300 paired with a buy
  at 300 (PnL 0) and \<open>min_profit = 0.01\<close> it does not return.
\<close>

theorem profit_target_never_returns:
  "get_pnl sell_flat (Some (o_price sell_flat)) = Some 0
   \<and> get_price_adjusted_to_profit_target sell_flat (1 / 100) = None"
  by (simp add: get_price_adjusted_to_profit_target_def get_pnl_def sell_flat_def buy0_def
      round2_def round_half_even_def profit_target_loop_diverges)

subsection \<open>Adjusting against the ticker\<close>

lemma ticker_loop_buy_le:
  assumes "ticker_loop sd o_prices spread_add price = Some r"
    and "sd = Buy" and "0 \<le> spread_add"
  shows "r \<le> price"
  using assms
proof (induction rule: ticker_loop.raw_induct [rotated 1, consumes 1])
  case (1 loop sd o_prices spread_add price r)
  then show ?case by (fastforce split: if_splits)
qed

lemma ticker_loop_sell_ge:
  assumes "ticker_loop sd o_prices spread_add price = Some r"
    and "sd = Sell" and "0 \<le> spread_add"
  shows "price \<le> r"
  using assms
proof (induction rule: ticker_loop.raw_induct [rotated 1, consumes 1])
  case (1 loop sd o_prices spread_add price r)
  then show ?case by (fastforce split: if_splits)
qed

lemma ticker_loop_unique:
  assumes "ticker_loop sd o_prices spread_add price = Some r"
  shows "r \<notin> set o_prices"
  using assms
proof (induction rule: ticker_loop.raw_induct [rotated 1, consumes 1])
  case (1 loop sd o_prices spread_add price r)
  then show ?case by (auto split: if_splits)
qed

lemma length_filter_less:
  "(\<And>x. Q x \<Longrightarrow> P x) \<Longrightarrow> y \<in> set xs \<Longrightarrow> P y \<Longrightarrow> \<not> Q y
     \<Longrightarrow> length (filter Q xs) < length (filter P xs)"
proof (induction xs)
  case Nil
  then show ?case by simp
next
  case (Cons a xs)
  have le: "length (filter Q xs) \<le> length (filter P xs)"
    using Cons.prems(1) by (induction xs) auto
  show ?case
  proof (cases "y = a")
    case True
    then show ?thesis using Cons.prems le by simp
  next
    case False
    then have "length (filter Q xs) < length (filter P xs)"
      using Cons by simp
    then show ?thesis using Cons.prems(1) by auto
  qed
qed

text \<open>With a positive \<open>spread_add\<close> the loop leaves the finitely many peer prices behind.\<close>

lemma ticker_loop_buy_terminates:
  assumes "0 < spread_add"
  shows "\<exists>r. ticker_loop Buy o_prices spread_add price = Some r"
proof (induction "length (filter (\<lambda>x. x \<le> price) o_prices)" arbitrary: price rule: less_induct)
  case less
  show ?case
  proof (cases "price \<in> set o_prices")
    case False
    then show ?thesis by (subst ticker_loop.simps) simp
  next
    case True
    have "length (filter (\<lambda>x. x \<le> price - spread_add) o_prices)
            < length (filter (\<lambda>x. x \<le> price) o_prices)"
      using assms True by (intro length_filter_less [where y = price]) auto
    from less [OF this] obtain r
      where "ticker_loop Buy o_prices spread_add (price - spread_add) = Some r" by blast
    then show ?thesis using True by (subst ticker_loop.simps) simp
  qed
qed

lemma ticker_loop_sell_terminates:
  assumes "0 < spread_add"
  shows "\<exists>r. ticker_loop Sell o_prices spread_add price = Some r"
proof (induction "length (filter (\<lambda>x. price \<le> x) o_prices)" arbitrary: price rule: less_induct)
  case less
  show ?case
  proof (cases "price \<in> set o_prices")
    case False
    then show ?thesis by (subst ticker_loop.simps) simp
  next
    case True
    have "length (filter (\<lambda>x. price + spread_add \<le> x) o_prices)
            < length (filter (\<lambda>x. price \<le> x) o_prices)"
      using assms True by (intro length_filter_less [where y = price]) auto
    from less [OF this] obtain r
      where "ticker_loop Sell o_prices spread_add (price + spread_add) = Some r" by blast
    then show ?thesis using True by (subst ticker_loop.simps) simp
  qed
qed

text \<open>
  Claim C6. For a buy order, with a ticker price at hand and a positive selected spread
  (\<open>min_spread\<close> if aggressive, else \<open>max_spread\<close>), a price returned by
  \<open>get_price_adjusted_to_ticker\<close> is strictly below the ticker price. The call does
  return when the half spread rounded to two decimals is positive.
\<close>

theorem buy_price_below_ticker:
  assumes "o_side ord = Buy"
    and "(case ticker of None \<Rightarrow> get_current_ticker w | Some t \<Rightarrow> t) = Some ticker_price"
    and "0 < (if aggr then min_spread m else max_spread m)"
  shows "(get_price_adjusted_to_ticker w m ord price ticker aggr adjust_vs_open = Some r
            \<longrightarrow> r < ticker_price)
         \<and> (0 < round2 ((if aggr then min_spread m else max_spread m) / 2)
            \<longrightarrow> (\<exists>r. get_price_adjusted_to_ticker w m ord price ticker aggr adjust_vs_open
                        = Some r))"
proof (intro conjI impI)
  let ?spread = "if aggr then min_spread m else max_spread m"
  have add: "0 \<le> round2 (?spread / 2)"
    using assms(3) by (intro round2_nonneg) simp
  assume "get_price_adjusted_to_ticker w m ord price ticker aggr adjust_vs_open = Some r"
  then obtain p0
    where loop: "ticker_loop Buy (get_other_order_prices m Buy) (round2 (?spread / 2)) p0
                   = Some r"
      and p0: "p0 \<le> ticker_price - ?spread"
    using assms(1,2)
    by (auto simp: get_price_adjusted_to_ticker_def Let_def split: if_splits)
  from ticker_loop_buy_le [OF loop refl add] p0 assms(3) show "r < ticker_price" by simp
next
  assume "0 < round2 ((if aggr then min_spread m else max_spread m) / 2)"
  then show "\<exists>r. get_price_adjusted_to_ticker w m ord price ticker aggr adjust_vs_open = Some r"
    using assms(1) ticker_loop_buy_terminates
    by (simp add: get_price_adjusted_to_ticker_def Let_def)
qed

theorem buy_price_below_ticker_witness:
  "get_price_adjusted_to_ticker world0 (maker0\<lparr>orders_dict := [(0, buy0)]\<rparr>)
      (Order None Buy 300 1 None) None None True True = Some (1199 / 4)
   \<and> (1199 / 4 :: real) < 601 / 2"
  using buy_price_below_ticker [where ord = "Order None Buy 300 1 None" and ticker = None
      and w = world0 and ticker_price = "601 / 2" and aggr = True
      and m = "maker0\<lparr>orders_dict := [(0, buy0)]\<rparr>" and price = None
      and adjust_vs_open = True and r = "1199 / 4"]
  by (simp add: get_price_adjusted_to_ticker_def get_other_order_prices_def ticker_loop.simps
      round2_def round_half_even_def Let_def world0_def maker0_def buy0_def)

subsection \<open>Adjusting against the other prices\<close>










subsection \<open>Placement\<close>




subsection \<open>Fills\<close>

lemma filter_delete_other_side:
  assumes "distinct (map fst al)" and "map_of al i = Some ord" and "o_side ord \<noteq> sd"
  shows "filter (\<lambda>(k, x). o_side x = sd) (AList.delete i al)
           = filter (\<lambda>(k, x). o_side x = sd) al"
proof -
  have "k \<noteq> i" if "(k, x) \<in> set al" and "o_side x = sd" for k x
  proof
    assume "k = i"
    then have "map_of al i = Some x" using that(1) assms(1) by simp
    then show False using assms(2,3) that(2) by simp
  qed
  then show ?thesis
    by (auto simp: AList.delete_eq intro!: filter_cong)
qed

lemma length_update_fresh:
  "k \<notin> fst ` set al \<Longrightarrow> length (AList.update k v al) = Suc (length al)"
  by (induction al) auto

text \<open>
  Claim C9. When \<open>handle_fill\<close> processes a filled sell with \<open>replace\<close> true while the
  number of open buys equals \<open>max_open_buys\<close>, no replacement buy enters the registry
  and the fills table grows by the one filled order; \<open>position_size\<close> is 0 at that buy
  count whatever the balance. (The registry's keys are distinct, the id is not yet among
  the fills, and the best ask is not zero.)
\<close>

theorem handle_fill_sell_at_buy_cap:
  assumes "distinct (map fst (orders_dict m))"
    and "map_of (orders_dict m) i = Some ord" and "o_side ord = Sell" and "is_filled w ord"
    and "int (length (buy_orders m)) = max_open_buys m"
    and "lowest_ask w \<noteq> 0"
    and "i \<notin> fst ` set (fills_dict m)"
  shows "handle_fill w i True m
           = Some (Inr None, m\<lparr>orders_dict := AList.delete i (orders_dict m),
                                 fills_dict := AList.update i ord (fills_dict m)\<rparr>)
         \<and> length (AList.update i ord (fills_dict m)) = Suc (length (fills_dict m))
         \<and> position_size w m = Inr 0
         \<and> position_size w (m\<lparr>orders_dict := AList.delete i (orders_dict m),
                                 fills_dict := AList.update i ord (fills_dict m)\<rparr>) = Inr 0"
proof -
  let ?m2 = "m\<lparr>orders_dict := AList.delete i (orders_dict m),
               fills_dict := AList.update i ord (fills_dict m)\<rparr>"
  have buys: "buy_orders ?m2 = buy_orders m"
    using filter_delete_other_side [OF assms(1,2), of Buy] assms(3) by (simp add: buy_orders_def)
  have ps: "position_size w m = Inr 0"
    using assms(5,6) by (simp add: position_size_def Let_def)
  have ps2: "position_size w ?m2 = Inr 0"
    using assms(5,6) buys by (simp add: position_size_def Let_def)
  have "place_order w price sz Buy op_ord a b True c d ?m2 = Some (Inr None, ?m2)"
    for price sz op_ord a b c d
    using ps2 by (simp add: place_order_def)
  then have "handle_fill w i True m = Some (Inr None, ?m2)"
    using assms(2,3,4) by (simp add: handle_fill_def Let_def)
  then show ?thesis
    using ps ps2 length_update_fresh [OF assms(7)] by simp
qed

theorem handle_fill_sell_at_buy_cap_witness:
  "handle_fill fill_world 4 True
      (maker0\<lparr>orders_dict := [(1, buy1), (2, buy2), (3, buy3), (4, sell4)]\<rparr>)
     = Some (Inr None, maker0\<lparr>orders_dict := [(1, buy1), (2, buy2), (3, buy3)],
                               fills_dict := [(4, sell4)]\<rparr>)
   \<and> position_size fill_world
       (maker0\<lparr>orders_dict := [(1, buy1), (2, buy2), (3, buy3), (4, sell4)]\<rparr>) = Inr 0"
  using handle_fill_sell_at_buy_cap
    [of "maker0\<lparr>orders_dict := [(1, buy1), (2, buy2), (3, buy3), (4, sell4)]\<rparr>" 4 sell4
      fill_world]
  by (simp add: buy_orders_def fill_world_def world0_def maker0_def buy1_def buy2_def buy3_def
      sell4_def)

text \<open>
  Claim C10. When \<open>handle_fill\<close> is called for a tracked order that the exchange does not
  report as filled, it raises; the order is then already out of the registry and has not
  been put into the fills table, which is as it was.
\<close>

theorem handle_fill_not_filled:
  assumes "map_of (orders_dict m) i = Some ord" and "\<not> is_filled w ord"
  shows "handle_fill w i replace m
           = Some (Inl PyException, m\<lparr>orders_dict := AList.delete i (orders_dict m)\<rparr>)
         \<and> i \<notin> fst ` set (AList.delete i (orders_dict m))
         \<and> fills_dict (m\<lparr>orders_dict := AList.delete i (orders_dict m)\<rparr>) = fills_dict m"
  using assms by (simp add: handle_fill_def Let_def delete_notin_dom)

theorem handle_fill_not_filled_witness:
  "handle_fill world0 1 True (maker0\<lparr>orders_dict := [(1, sell1)]\<rparr>)
     = Some (Inl PyException, maker0\<lparr>orders_dict := []\<rparr>)"
  using handle_fill_not_filled [of "maker0\<lparr>orders_dict := [(1, sell1)]\<rparr>" 1 sell1 world0 True]
  by (simp add: world0_def)

subsection \<open>Cancelling\<close>

text \<open>
  Claim C3, amended. For a tracked order for which the exchange reports ``not found'',
  \<open>cancel_order\<close> removes it from the registry, returns it and raises nothing. A second
  call for the same id leaves the registry as it is and raises \<open>AttributeError\<close>: the id
  is no longer tracked, and the exchange is not asked again.
\<close>

theorem cancel_order_not_found_twice:
  assumes "map_of (orders_dict m) i = Some ord"
    and "cancel w ord = CancelRaise (GdaxAPIError msg)"
    and "\<not> py_in ''done'' msg" and "py_in ''not found'' msg"
  shows "cancel_order w i m = Some (Inr ord, m\<lparr>orders_dict := AList.delete i (orders_dict m)\<rparr>)
         \<and> cancel_order w i (m\<lparr>orders_dict := AList.delete i (orders_dict m)\<rparr>)
             = Some (Inl AttributeError, m\<lparr>orders_dict := AList.delete i (orders_dict m)\<rparr>)"
  using assms by (simp add: cancel_order_def Let_def delete_conv')

theorem cancel_order_not_found_twice_witness:
  "cancel_order gone_world 1 (maker0\<lparr>orders_dict := [(1, buy1), (0, buy0)]\<rparr>)
     = Some (Inr buy1, maker0\<lparr>orders_dict := [(0, buy0)]\<rparr>)
   \<and> cancel_order gone_world 1 (maker0\<lparr>orders_dict := [(0, buy0)]\<rparr>)
     = Some (Inl AttributeError, maker0\<lparr>orders_dict := [(0, buy0)]\<rparr>)"
  using cancel_order_not_found_twice [of "maker0\<lparr>orders_dict := [(1, buy1), (0, buy0)]\<rparr>" 1 buy1
      gone_world "''order not found''"]
  by (simp add: gone_world_def world0_def)

text \<open>The second of two calls for the only tracked order raises.\<close>

theorem cancel_order_twice_counterexample:
  "cancel_order gone_world 1 (maker0\<lparr>orders_dict := [(1, buy1)]\<rparr>)
     = Some (Inr buy1, maker0\<lparr>orders_dict := []\<rparr>)
   \<and> cancel_order gone_world 1 (maker0\<lparr>orders_dict := []\<rparr>)
     = Some (Inl AttributeError, maker0\<lparr>orders_dict := []\<rparr>)"
  by (simp add: cancel_order_def gone_world_def world0_def Let_def)

subsection \<open>Shifting\<close>

text \<open>A stopped sell is noted in \<open>cancels\<close> and skipped; nothing reads \<open>cancels\<close>.\<close>

lemma shift_order_stopped_sell:
  assumes "i \<notin> set exclude" and "o_side ord = Sell" and "stopped m ord p"
  shows "shift_order w exclude p spread (i, ord) acc m
           = Some (Inr (fst acc @ [(i, p + 1 / 100)], snd acc), m)"
  using assms by (simp add: shift_order_def)

text \<open>
  Claim C1. A tracked sell whose stop amount is at or above the ticker is claimed to be
  cancelled and replaced by a sell at ticker + spread/2. Here the sell at 305 is paired
  with a buy at 300, the stop is 225 and the ticker 224.50: \<open>shift_orders\<close> returns no
  new order and the registry still holds the sell.
\<close>

theorem shift_orders_stop_trigger:
  "stop_amount (maker0\<lparr>orders_dict := [(1, sell1)]\<rparr>) sell1 = Some 225
   \<and> shift_orders stop_world None (maker0\<lparr>orders_dict := [(1, sell1)]\<rparr>)
       = Some (Inr (Some []),
               maker0\<lparr>last_ticker := Some (449 / 2), orders_dict := [(1, sell1)]\<rparr>)"
  by (simp add: maker0_def world0_def stop_world_def sell1_def buy0_def shift_orders_def
      orders_def shift_order_def stopped_def stop_amount_def adopt_def Let_def)

text \<open>\<^verbatim>\<open>register_op_order\<close> keeps the pairing: it hands a same-side replacement the
  opposite of the order it replaces and refuses a same-side order that has none.\<close>

lemma register_op_order_sides:
  assumes "register_op_order self ord = Inr self'"
    and "case op_order ord of None \<Rightarrow> True | Some opp \<Rightarrow> o_side opp \<noteq> o_side ord"
  shows "case op_order self' of None \<Rightarrow> False | Some opp \<Rightarrow> o_side opp \<noteq> o_side self'"
  using assms by (auto simp: register_op_order_def split: if_splits option.splits)

text \<open>
  Claim C2. Every tracked order is claimed to have no opposite or one of the other side,
  also after \<open>shift_orders\<close> replaces an order. From a new market maker, one call adopts
  the exchange's buy at 298; the next call replaces it by a buy at 299.20 whose opposite
  is the cancelled buy.
\<close>

theorem shift_orders_same_side_opposite:
  "shift_orders adopt_world None (maker0\<lparr>last_ticker := None\<rparr>)
     = Some (Inr (Some []), maker0\<lparr>orders_dict := [(1, buy1)]\<rparr>)
   \<and> opposite_sides_differ (maker0\<lparr>orders_dict := [(1, buy1)]\<rparr>)
   \<and> shift_orders replace_world None (maker0\<lparr>orders_dict := [(1, buy1)]\<rparr>)
     = Some (Inr (Some [Some (Order (Some 10) Buy (1496 / 5) 1 (Some buy1))]),
             maker0\<lparr>last_ticker := Some (601 / 2),
                    orders_dict := [(10, Order (Some 10) Buy (1496 / 5) 1 (Some buy1))],
                    posted := 1\<rparr>)
   \<and> \<not> opposite_sides_differ
         (maker0\<lparr>last_ticker := Some (601 / 2),
                orders_dict := [(10, Order (Some 10) Buy (1496 / 5) 1 (Some buy1))],
                posted := 1\<rparr>)"
  by (simp add: maker0_def world0_def adopt_world_def replace_world_def buy1_def
      opposite_sides_differ_def shift_orders_def orders_def shift_order_def stopped_def stop_amount_def
      adopt_def Let_def replace_order_def cancel_order_def place_order_def position_size_def
      buy_orders_def sell_orders_def get_price_adjusted_to_other_prices_def
      get_price_adjusted_to_spread_def get_amount_above_spread_def
      get_price_adjusted_to_ticker_def get_other_order_prices_def round2_def
      round_half_even_def ticker_loop.simps)

end
